theory Spec2Isabelle
  imports Main
begin

section \<open>Strings as byte sequences\<close>

text \<open>
  A Go \<open>string\<close> is a sequence of bytes, and so is a HOL \<open>string\<close>. Bytes are
  compared through their codes, as Go's \<open>==\<close> and \<open><\<close> on strings do.
\<close>

definition byte :: "char \<Rightarrow> nat" where
  "byte c = of_char c"

definition isDigit :: "char \<Rightarrow> bool" where
  "isDigit c = (byte (CHR ''0'') \<le> byte c \<and> byte c \<le> byte (CHR ''9''))"

text \<open>Go's \<open>x < y\<close> on strings: lexicographic on the bytes.\<close>

fun strLess :: "string \<Rightarrow> string \<Rightarrow> bool" where
  "strLess [] [] = False"
| "strLess [] (y # ys) = True"
| "strLess (x # xs) [] = False"
| "strLess (x # xs) (y # ys) =
     (if byte x < byte y then True
      else if byte y < byte x then False
      else strLess xs ys)"

text \<open>\<open>strings.HasPrefix(s, prefix)\<close>.\<close>

definition HasPrefix :: "string \<Rightarrow> string \<Rightarrow> bool" where
  "HasPrefix s pre = (length pre \<le> length s \<and> take (length pre) s = pre)"

section \<open>Semantic versions\<close>

text \<open>
  Modelled from the spec: \<open>semver.Compare\<close> of the imported library
  \<open>golang.org/x/mod/semver\<close> is not among the sources. The spec asks for
  "semantic-version ordering" of versions written with a leading \<open>v\<close>, under which a
  malformed version string fails the range check. The definitions of this section follow
  that library: \<open>parse\<close> accepts \<open>vMAJOR[.MINOR[.PATCH[-PRERELEASE][+BUILD]]]\<close>, numbers
  have no leading zero, an invalid version is less than every valid one and equal to
  every invalid one, and build metadata is ignored by the comparison.
\<close>

record parsed =
  major :: string
  minor :: string
  patch :: string
  short :: string
  prerelease :: string
  build :: string

definition parseInt :: "string \<Rightarrow> (string \<times> string) option" where
  "parseInt v =
     (case v of
        [] \<Rightarrow> None
      | c # cs \<Rightarrow>
          if \<not> isDigit c then None
          else if c = CHR ''0'' \<and> takeWhile isDigit cs \<noteq> [] then None
          else Some (c # takeWhile isDigit cs, dropWhile isDigit cs))"

definition isIdentChar :: "char \<Rightarrow> bool" where
  "isIdentChar c =
     (byte (CHR ''A'') \<le> byte c \<and> byte c \<le> byte (CHR ''Z'')
      \<or> byte (CHR ''a'') \<le> byte c \<and> byte c \<le> byte (CHR ''z'')
      \<or> byte (CHR ''0'') \<le> byte c \<and> byte c \<le> byte (CHR ''9'')
      \<or> c = CHR ''-'')"

definition isBadNum :: "string \<Rightarrow> bool" where
  "isBadNum v =
     (length (takeWhile isDigit v) = length v \<and> 1 < length (takeWhile isDigit v)
      \<and> take 1 v = ''0'')"

definition isNum :: "string \<Rightarrow> bool" where
  "isNum v = (length (takeWhile isDigit v) = length v)"

text \<open>
  The loop of \<open>parsePrerelease\<close>: \<open>pre\<close> is \<open>v[:i]\<close>, \<open>cur\<close> is \<open>v[start:i]\<close> and the
  last argument is \<open>v[i:]\<close>.
\<close>

fun prereleaseLoop :: "string \<Rightarrow> string \<Rightarrow> string \<Rightarrow> (string \<times> string) option" where
  "prereleaseLoop pre cur [] =
     (if cur = [] \<or> isBadNum cur then None else Some (pre, []))"
| "prereleaseLoop pre cur (c # cs) =
     (if c = CHR ''+'' then
        (if cur = [] \<or> isBadNum cur then None else Some (pre, c # cs))
      else if \<not> isIdentChar c \<and> c \<noteq> CHR ''.'' then None
      else if c = CHR ''.'' then
        (if cur = [] \<or> isBadNum cur then None else prereleaseLoop (pre @ [c]) [] cs)
      else prereleaseLoop (pre @ [c]) (cur @ [c]) cs)"

definition parsePrerelease :: "string \<Rightarrow> (string \<times> string) option" where
  "parsePrerelease v =
     (case v of
        [] \<Rightarrow> None
      | c # cs \<Rightarrow> if c \<noteq> CHR ''-'' then None else prereleaseLoop [c] [] cs)"

fun buildLoop :: "string \<Rightarrow> string \<Rightarrow> string \<Rightarrow> (string \<times> string) option" where
  "buildLoop pre cur [] = (if cur = [] then None else Some (pre, []))"
| "buildLoop pre cur (c # cs) =
     (if \<not> isIdentChar c \<and> c \<noteq> CHR ''.'' then None
      else if c = CHR ''.'' then
        (if cur = [] then None else buildLoop (pre @ [c]) [] cs)
      else buildLoop (pre @ [c]) (cur @ [c]) cs)"

definition parseBuild :: "string \<Rightarrow> (string \<times> string) option" where
  "parseBuild v =
     (case v of
        [] \<Rightarrow> None
      | c # cs \<Rightarrow> if c \<noteq> CHR ''+'' then None else buildLoop [c] [] cs)"

text \<open>The end of \<open>parse\<close>, after the patch number: pre-release, build, nothing more.\<close>

definition parseBuildPart :: "parsed \<Rightarrow> string \<Rightarrow> parsed option" where
  "parseBuildPart p v =
     (if v \<noteq> [] \<and> take 1 v = ''+'' then
        (case parseBuild v of
           None \<Rightarrow> None
         | Some (b, rest) \<Rightarrow> if rest \<noteq> [] then None else Some (p\<lparr>build := b\<rparr>))
      else if v \<noteq> [] then None
      else Some p)"

definition parseTail :: "parsed \<Rightarrow> string \<Rightarrow> parsed option" where
  "parseTail p v =
     (if v \<noteq> [] \<and> take 1 v = ''-'' then
        (case parsePrerelease v of
           None \<Rightarrow> None
         | Some (pr, rest) \<Rightarrow> parseBuildPart (p\<lparr>prerelease := pr\<rparr>) rest)
      else parseBuildPart p v)"

text \<open>
  Modelled from the spec: \<open>parse\<close> of \<open>golang.org/x/mod/semver\<close> (not among the
  sources), the validity test behind "malformed version strings": a \<open>v\<close>, the major
  number, and optionally the minor and the patch number, the latter optionally followed
  by a pre-release and by build metadata.
\<close>

definition parse :: "string \<Rightarrow> parsed option" where
  "parse v =
     (case v of
        [] \<Rightarrow> None
      | c # v1 \<Rightarrow>
          if c \<noteq> CHR ''v'' then None
          else
            (case parseInt v1 of
               None \<Rightarrow> None
             | Some (ma, v2) \<Rightarrow>
                 (case v2 of
                    [] \<Rightarrow>
                      Some \<lparr>major = ma, minor = ''0'', patch = ''0'', short = ''.0.0'',
                            prerelease = [], build = []\<rparr>
                  | d # v3 \<Rightarrow>
                      if d \<noteq> CHR ''.'' then None
                      else
                        (case parseInt v3 of
                           None \<Rightarrow> None
                         | Some (mi, v4) \<Rightarrow>
                             (case v4 of
                                [] \<Rightarrow>
                                  Some \<lparr>major = ma, minor = mi, patch = ''0'',
                                        short = ''.0'', prerelease = [], build = []\<rparr>
                              | e # v5 \<Rightarrow>
                                  if e \<noteq> CHR ''.'' then None
                                  else
                                    (case parseInt v5 of
                                       None \<Rightarrow> None
                                     | Some (pa, v6) \<Rightarrow>
                                         parseTail
                                           \<lparr>major = ma, minor = mi, patch = pa,
                                            short = [], prerelease = [], build = []\<rparr>
                                           v6))))))"


definition compareInt :: "string \<Rightarrow> string \<Rightarrow> int" where
  "compareInt x y =
     (if x = y then 0
      else if length x < length y then - 1
      else if length y < length x then 1
      else if strLess x y then - 1
      else 1)"

definition nextIdent :: "string \<Rightarrow> string \<times> string" where
  "nextIdent x = (takeWhile (\<lambda>c. c \<noteq> CHR ''.'') x, dropWhile (\<lambda>c. c \<noteq> CHR ''.'') x)"

definition compareIdent :: "string \<Rightarrow> string \<Rightarrow> int" where
  "compareIdent dx dy =
     (if isNum dx \<noteq> isNum dy then (if isNum dx then - 1 else 1)
      else if isNum dx \<and> length dx < length dy then - 1
      else if isNum dx \<and> length dy < length dx then 1
      else if strLess dx dy then - 1
      else 1)"

text \<open>
  The loop of \<open>comparePrerelease\<close>: each round drops the separator (\<open>-\<close> or \<open>.\<close>) and
  one identifier from both strings, so the strings get shorter.
\<close>

function prereleaseCmpLoop :: "string \<Rightarrow> string \<Rightarrow> int" where
  "prereleaseCmpLoop x y =
     (if x \<noteq> [] \<and> y \<noteq> [] then
        (if fst (nextIdent (tl x)) \<noteq> fst (nextIdent (tl y))
         then compareIdent (fst (nextIdent (tl x))) (fst (nextIdent (tl y)))
         else prereleaseCmpLoop (snd (nextIdent (tl x))) (snd (nextIdent (tl y))))
      else if x = [] then - 1
      else 1)"
  by pat_completeness auto
termination
proof (relation "measure (\<lambda>(x, y). length x)")
  show "wf (measure (\<lambda>(x, y). length x))" by simp
next
  fix x y :: string
  assume "x \<noteq> [] \<and> y \<noteq> []"
  then have "length (tl x) < length x" by (cases x) simp_all
  moreover have "length (snd (nextIdent (tl x))) \<le> length (tl x)"
    unfolding nextIdent_def snd_conv by (rule length_dropWhile_le)
  ultimately show "((snd (nextIdent (tl x)), snd (nextIdent (tl y))), (x, y))
      \<in> measure (\<lambda>(x, y). length x)"
    by simp
qed

definition comparePrerelease :: "string \<Rightarrow> string \<Rightarrow> int" where
  "comparePrerelease x y =
     (if x = y then 0
      else if x = [] then 1
      else if y = [] then - 1
      else prereleaseCmpLoop x y)"

text \<open>
  Modelled from the spec: \<open>semver.Compare\<close> of \<open>golang.org/x/mod/semver\<close> (not among
  the sources), the "semantic-version ordering" of the version gate: \<open>- 1\<close>, \<open>0\<close> or
  \<open>1\<close>; an invalid version is below every valid one and equal to every invalid one.
\<close>

definition Compare :: "string \<Rightarrow> string \<Rightarrow> int" where
  "Compare v w =
     (case (parse v, parse w) of
        (None, None) \<Rightarrow> 0
      | (None, Some pw) \<Rightarrow> - 1
      | (Some pv, None) \<Rightarrow> 1
      | (Some pv, Some pw) \<Rightarrow>
          if compareInt (major pv) (major pw) \<noteq> 0 then compareInt (major pv) (major pw)
          else if compareInt (minor pv) (minor pw) \<noteq> 0 then compareInt (minor pv) (minor pw)
          else if compareInt (patch pv) (patch pw) \<noteq> 0 then compareInt (patch pv) (patch pw)
          else comparePrerelease (prerelease pv) (prerelease pw))"

section \<open>The version gate\<close>

definition minOutputVersion :: string where
  "minOutputVersion = ''0.1''"

definition maxOutputVersion :: string where
  "maxOutputVersion = ''0.1''"

text \<open>The version the gate compares: \<open>v\<close> with a \<open>v\<close> put in front when it has none.\<close>

definition withPrefix :: "string \<Rightarrow> string" where
  "withPrefix v = (if \<not> HasPrefix v ''v'' then ''v'' @ v else v)"

definition checkOutputVersion :: "string \<Rightarrow> bool" where
  "checkOutputVersion v =
     (0 \<le> Compare (withPrefix v) (''v'' @ minOutputVersion)
      \<and> Compare (withPrefix v) (''v'' @ maxOutputVersion) \<le> 0)"

text \<open>
  The spec's reading of the gate, to compare with the code: "membership in
  \<open>[minOutputVersion, maxOutputVersion]\<close> using semantic-version ordering (numeric
  major.minor comparison)". The numbers of a version are read as decimal numerals, and
  a version lies in the closed range when it is valid and neither precedes the lower
  bound nor is preceded by the upper bound.
\<close>

definition digitVal :: "char \<Rightarrow> nat" where
  "digitVal c = byte c - byte (CHR ''0'')"

definition decimal :: "string \<Rightarrow> nat" where
  "decimal t = foldl (\<lambda>n c. 10 * n + digitVal c) 0 t"

definition precedes :: "parsed \<Rightarrow> parsed \<Rightarrow> bool" where
  "precedes p q =
     (decimal (major p) < decimal (major q)
      \<or> decimal (major p) = decimal (major q) \<and>
        (decimal (minor p) < decimal (minor q)
         \<or> decimal (minor p) = decimal (minor q) \<and>
           (decimal (patch p) < decimal (patch q)
            \<or> decimal (patch p) = decimal (patch q) \<and>
              comparePrerelease (prerelease p) (prerelease q) < 0)))"

definition inVersionRange :: "string \<Rightarrow> string \<Rightarrow> string \<Rightarrow> bool" where
  "inVersionRange lo hi v =
     (case (parse lo, parse hi, parse v) of
        (Some l, Some h, Some p) \<Rightarrow> \<not> precedes p l \<and> \<not> precedes h p
      | _ \<Rightarrow> False)"

text \<open>What \<open>parseInt\<close> accepts: a non-empty digit string with no leading zero.\<close>

definition canonical :: "string \<Rightarrow> bool" where
  "canonical t = (t \<noteq> [] \<and> list_all isDigit t \<and> (if take 1 t = ''0'' then t = ''0'' else True))"

section \<open>The output command\<close>

subsection \<open>Errors, warnings and results\<close>

text \<open>
  A Go \<open>error\<close>: one returned by a collaborator (the file system, the JSON loader, a
  renderer), one wrapped by \<open>errors.Wrap(err, message)\<close>, or one made by \<open>fmt.Errorf\<close>.
  \<open>errorMessage\<close> is the \<open>Error()\<close> method.
\<close>

datatype error =
    External string
  | Wrap error string
  | Errorf string

fun errorMessage :: "error \<Rightarrow> string" where
  "errorMessage (External m) = m"
| "errorMessage (Wrap e m) = m @ '': '' @ errorMessage e"
| "errorMessage (Errorf m) = m"

text \<open>
  The three warnings of the command, printed by \<open>ui.PrintWarning\<close> and
  \<open>ui.PrintWarningf\<close>:
  \<^item> \<open>FieldsEmpty d\<close>: "fields is empty, using defaults: d";
  \<^item> \<open>InvalidField f vs\<close>: "Invalid field 'f' specified, valid fields are: vs";
  \<^item> \<open>FieldsTableOnly\<close>: "fields is only supported for table output format (HTML
    support coming soon)".
\<close>

datatype warning =
    FieldsEmpty string
  | InvalidField string "string list"
  | FieldsTableOnly

text \<open>
  How a run ends: the process exits inside \<open>ui.PrintUsageErrorAndExit\<close> with a usage
  message, or \<open>RunE\<close> returns an error or \<open>nil\<close>.
\<close>

datatype outcome =
    Exit string
  | Return "error option"

record result =
  warnings :: "warning list"
  stdout :: "string list"
  outcome :: outcome

subsection \<open>Documents, options and collaborators\<close>

record 'a Root =
  Version :: string
  Payload :: 'a

record 'a ReportInput =
  Metadata :: "(string \<times> string) list"
  Root :: "'a Root"

record Options =
  NoColor :: bool
  GroupKey :: string
  GroupLabel :: string
  Fields :: "string list"
  ShowSkipped :: bool

text \<open>
  The functions the command calls and that are not among the sources are parameters of
  the model: \<open>filepath.Glob\<close> (the command drops its error), \<open>ioutil.ReadFile\<close>,
  \<open>output.Load\<close>, \<open>output.Combine\<close>, the four renderers of package \<open>output\<close>,
  \<open>ui.PrimaryString\<close>, the configuration's \<open>NoColor\<close>, and the part of
  \<open>strings.ToLower\<close> that maps non-ASCII text through the Unicode tables.
\<close>

record ('a, 'r) Env =
  Glob :: "string \<Rightarrow> string list"
  ReadFile :: "string \<Rightarrow> error + string"
  Load :: "string \<Rightarrow> error + 'a Root"
  Combine :: "'a ReportInput list \<Rightarrow> Options \<Rightarrow> 'r"
  ToJSON :: "'r \<Rightarrow> Options \<Rightarrow> error + string"
  ToHTML :: "'r \<Rightarrow> Options \<Rightarrow> error + string"
  ToDiff :: "'r \<Rightarrow> Options \<Rightarrow> error + string"
  ToTable :: "'r \<Rightarrow> Options \<Rightarrow> error + string"
  PrimaryString :: "string \<Rightarrow> string"
  ConfigNoColor :: bool
  unicodeToLower :: "string \<Rightarrow> string"

text \<open>
  An invocation: the command's name (\<open>output\<close>, or \<open>report\<close> for the deprecated
  alias), its positional arguments, and each flag with \<open>None\<close> when the command line
  did not set it (\<open>cmd.Flags().Changed\<close> is false) and the parsed value otherwise.
\<close>

record Cmd =
  Name :: string
  Args :: "string list"
  pathFlag :: "string list option"
  formatFlag :: "string option"
  fieldsFlag :: "string list option"
  showSkippedFlag :: "bool option"

definition Changed :: "'x option \<Rightarrow> bool" where
  "Changed flag = (flag \<noteq> None)"

text \<open>\<open>GetString\<close>, \<open>GetStringArray\<close>, ...: the parsed value, or the declared default.\<close>

definition flagValue :: "'x option \<Rightarrow> 'x \<Rightarrow> 'x" where
  "flagValue flag dflt = (case flag of None \<Rightarrow> dflt | Some x \<Rightarrow> x)"

definition newline :: string where
  "newline = [CHR 0x0A]"

subsection \<open>Resolving the input files\<close>

text \<open>
  Modelled from the spec: \<open>ui.PrintUsageErrorAndExit\<close> is in package \<open>internal/ui\<close>,
  not among the sources. By the spec a fatal error stops execution and prints a single
  message naming the missing-input condition: the run ends there with that message and
  nothing on standard output.
\<close>

definition PrintUsageErrorAndExit :: "string \<Rightarrow> result" where
  "PrintUsageErrorAndExit m = \<lparr>warnings = [], stdout = [], outcome = Exit m\<rparr>"

definition noPathMessage :: "(string \<Rightarrow> string) \<Rightarrow> string" where
  "noPathMessage primary =
     ''No path specified'' @ newline @ newline @ ''Use the '' @ primary ''--path''
       @ '' flag to specify the path to an Infracost JSON file.''"

text \<open>The loop over the \<open>--path\<close> patterns, appending each pattern's matches.\<close>

fun globPaths :: "(string \<Rightarrow> string list) \<Rightarrow> string list \<Rightarrow> string list \<Rightarrow> string list" where
  "globPaths g inputFiles [] = inputFiles"
| "globPaths g inputFiles (path # paths) = globPaths g (inputFiles @ g path) paths"

definition resolveInputFiles :: "('a, 'r) Env \<Rightarrow> Cmd \<Rightarrow> string + string list" where
  "resolveInputFiles env cmd =
     (if Name cmd = ''report'' then Inr (Args cmd)
      else if \<not> Changed (pathFlag cmd) then Inl (noPathMessage (PrimaryString env))
      else Inr (globPaths (Glob env) [] (flagValue (pathFlag cmd) [])))"

subsection \<open>Loading the documents\<close>

definition leq :: string where
  "leq = [CHR 0xE2, CHR 0x89, CHR 0xA4]"

definition versionError :: error where
  "versionError =
     Errorf (''Invalid Infracost JSON file version. Supported versions are ''
       @ minOutputVersion @ '' '' @ leq @ '' x '' @ leq @ '' '' @ maxOutputVersion)"

text \<open>
  The loop over the input files: read, parse, check the version, append. The first
  failure returns from \<open>RunE\<close>.
\<close>

fun loadInputs ::
  "('a, 'r) Env \<Rightarrow> 'a ReportInput list \<Rightarrow> string list \<Rightarrow> error + 'a ReportInput list" where
  "loadInputs env inputs [] = Inr inputs"
| "loadInputs env inputs (f # fs) =
     (case ReadFile env f of
        Inl err \<Rightarrow> Inl (Wrap err ''Error reading JSON file'')
      | Inr data \<Rightarrow>
          (case Load env data of
             Inl err \<Rightarrow> Inl (Wrap err ''Error parsing JSON file'')
           | Inr j \<Rightarrow>
               if \<not> checkOutputVersion (Version j) then Inl versionError
               else loadInputs env
                      (inputs @ [\<lparr>Metadata = [(''filename'', f)], Root = j\<rparr>]) fs))"

text \<open>The document of a file, when the file can be read and parsed.\<close>

definition document :: "('a, 'r) Env \<Rightarrow> string \<Rightarrow> 'a Root option" where
  "document env f =
     (case ReadFile env f of
        Inl err \<Rightarrow> None
      | Inr data \<Rightarrow> (case Load env data of Inl err \<Rightarrow> None | Inr j \<Rightarrow> Some j))"

subsection \<open>Choosing the fields\<close>

definition validFields :: "string list" where
  "validFields = [''price'', ''monthlyQuantity'', ''unit'', ''hourlyCost'', ''monthlyCost'']"

definition defaultFields :: "string list" where
  "defaultFields = [''monthlyQuantity'', ''unit'', ''monthlyCost'']"

text \<open>\<open>cmd.Flag("fields").DefValue\<close>: the default of the string-slice flag, as text.\<close>

definition fieldsDefValue :: string where
  "fieldsDefValue = ''[monthlyQuantity,unit,monthlyCost]''"

fun contains :: "string list \<Rightarrow> string \<Rightarrow> bool" where
  "contains [] e = False"
| "contains (a # arr) e = (if a = e then True else contains arr e)"

text \<open>The loop over the requested fields: it warns, and changes nothing.\<close>

fun invalidFieldWarnings :: "string list \<Rightarrow> warning list" where
  "invalidFieldWarnings [] = []"
| "invalidFieldWarnings (f # fs) =
     (if \<not> contains validFields f then InvalidField f validFields # invalidFieldWarnings fs
      else invalidFieldWarnings fs)"

definition selectFields :: "string list option \<Rightarrow> warning list \<times> string list" where
  "selectFields flag =
     (if Changed flag then
        (if length (flagValue flag defaultFields) = 0
         then ([FieldsEmpty fieldsDefValue], defaultFields)
         else (invalidFieldWarnings (flagValue flag defaultFields),
               flagValue flag defaultFields))
      else ([], defaultFields))"

definition outputOptions :: "('a, 'r) Env \<Rightarrow> Cmd \<Rightarrow> Options" where
  "outputOptions env cmd =
     \<lparr>NoColor = ConfigNoColor env, GroupKey = ''filename'', GroupLabel = ''File'',
      Fields = snd (selectFields (fieldsFlag cmd)),
      ShowSkipped = flagValue (showSkippedFlag cmd) False\<rparr>"

subsection \<open>Choosing the renderer\<close>

text \<open>
  \<open>strings.ToLower\<close> of the Go library: a string of ASCII bytes is mapped byte by byte,
  \<open>A\<close>..\<open>Z\<close> to \<open>a\<close>..\<open>z\<close>; any other string goes through the Unicode tables, which the
  model takes as the parameter \<open>uni\<close>.
\<close>

definition isUpperASCII :: "char \<Rightarrow> bool" where
  "isUpperASCII c = (byte (CHR ''A'') \<le> byte c \<and> byte c \<le> byte (CHR ''Z''))"

definition lowerASCII :: "char \<Rightarrow> char" where
  "lowerASCII c = (if isUpperASCII c then char_of (byte c + 32) else c)"

definition ToLower :: "(string \<Rightarrow> string) \<Rightarrow> string \<Rightarrow> string" where
  "ToLower uni s =
     (if list_all (\<lambda>c. byte c < 128) s then
        (if \<not> list_ex isUpperASCII s then s else map lowerASCII s)
      else uni s)"

datatype renderer = JSON | HTML | Diff | Table

definition selectRenderer :: "(string \<Rightarrow> string) \<Rightarrow> string \<Rightarrow> renderer" where
  "selectRenderer uni format =
     (if ToLower uni format = ''json'' then JSON
      else if ToLower uni format = ''html'' then HTML
      else if ToLower uni format = ''diff'' then Diff
      else Table)"

definition render ::
  "('a, 'r) Env \<Rightarrow> renderer \<Rightarrow> 'r \<Rightarrow> Options \<Rightarrow> error + string" where
  "render env r combined opts =
     (case r of
        JSON \<Rightarrow> ToJSON env combined opts
      | HTML \<Rightarrow> ToHTML env combined opts
      | Diff \<Rightarrow> ToDiff env combined opts
      | Table \<Rightarrow> ToTable env combined opts)"

subsection \<open>The command\<close>

text \<open>
  The part of \<open>RunE\<close> after the documents are loaded: the options, the combined report,
  the warnings, the renderer, and the output printed with \<open>fmt.Println\<close>.
\<close>

definition renderInputs :: "('a, 'r) Env \<Rightarrow> Cmd \<Rightarrow> 'a ReportInput list \<Rightarrow> result" where
  "renderInputs env cmd inputs =
     (let format = flagValue (formatFlag cmd) ''table'';
          opts = outputOptions env cmd;
          combined = Combine env inputs opts;
          ws = fst (selectFields (fieldsFlag cmd))
               @ (if Changed (fieldsFlag cmd) \<and> format \<noteq> ''table''
                  then [FieldsTableOnly] else [])
      in case render env (selectRenderer (unicodeToLower env) format) combined opts of
           Inl err \<Rightarrow> \<lparr>warnings = ws, stdout = [], outcome = Return (Some err)\<rparr>
         | Inr b \<Rightarrow> \<lparr>warnings = ws, stdout = [b @ newline], outcome = Return None\<rparr>)"

definition RunE :: "('a, 'r) Env \<Rightarrow> Cmd \<Rightarrow> result" where
  "RunE env cmd =
     (case resolveInputFiles env cmd of
        Inl m \<Rightarrow> PrintUsageErrorAndExit m
      | Inr inputFiles \<Rightarrow>
          (case loadInputs env [] inputFiles of
             Inl err \<Rightarrow> \<lparr>warnings = [], stdout = [], outcome = Return (Some err)\<rparr>
           | Inr inputs \<Rightarrow> renderInputs env cmd inputs))"

subsection \<open>A small file system and four renderers that say who they are\<close>

text \<open>
  Concrete collaborators for running the model: \<open>a.json\<close> and \<open>b.json\<close> hold
  documents of version 0.1, \<open>old.json\<close> one of version 0.0, \<open>broken.json\<close> does not
  parse, \<open>locked.json\<close> cannot be read, and no other file exists. The pattern \<open>*.json\<close> matches \<open>a.json\<close> and
  \<open>b.json\<close>. The combined report is the list of file names, and each renderer prints
  its name, the files and the fields it was given.
\<close>

definition demoGlob :: "string \<Rightarrow> string list" where
  "demoGlob path =
     (if path = ''*.json'' then [''a.json'', ''b.json'']
      else if path = ''a.json'' \<or> path = ''b.json'' \<or> path = ''old.json''
              \<or> path = ''broken.json'' \<or> path = ''locked.json'' then [path]
      else [])"

definition demoReadFile :: "string \<Rightarrow> error + string" where
  "demoReadFile f =
     (if f = ''a.json'' \<or> f = ''b.json'' then Inr ''0.1''
      else if f = ''old.json'' then Inr ''0.0''
      else if f = ''broken.json'' then Inr ''{''
      else if f = ''locked.json'' then Inl (External ''open locked.json: permission denied'')
      else Inl (External (''open '' @ f @ '': no such file or directory'')))"

definition demoLoad :: "string \<Rightarrow> error + unit Root" where
  "demoLoad data =
     (if data = ''{'' then Inl (External ''unexpected end of JSON input'')
      else Inr \<lparr>Version = data, Payload = ()\<rparr>)"

definition demoCombine :: "unit ReportInput list \<Rightarrow> Options \<Rightarrow> string list" where
  "demoCombine inputs opts = concat (map (\<lambda>i. map snd (Metadata i)) inputs)"

definition demoRender :: "string \<Rightarrow> string list \<Rightarrow> Options \<Rightarrow> error + string" where
  "demoRender name combined opts =
     Inr (name @ concat (map (\<lambda>f. '' '' @ f) combined)
            @ '';'' @ concat (map (\<lambda>f. '' '' @ f) (Fields opts)))"

definition demoEnv :: "(unit, string list) Env" where
  "demoEnv =
     \<lparr>Glob = demoGlob, ReadFile = demoReadFile, Load = demoLoad, Combine = demoCombine,
      ToJSON = demoRender ''json'', ToHTML = demoRender ''html'',
      ToDiff = demoRender ''diff'', ToTable = demoRender ''table'',
      PrimaryString = id, ConfigNoColor = True, unicodeToLower = id\<rparr>"

definition demoCmd :: Cmd where
  "demoCmd =
     \<lparr>Name = ''output'', Args = [], pathFlag = Some [''*.json''], formatFlag = None,
      fieldsFlag = None, showSkippedFlag = None\<rparr>"

section \<open>Properties of the version gate\<close>

lemma byte_eq_iff: "byte c = byte d \<longleftrightarrow> c = d"
  by (simp add: byte_def)

lemma parseInt_canonical: "parseInt v = Some (t, r) \<Longrightarrow> canonical t"
  by (cases v)
    (auto simp: parseInt_def canonical_def list_all_iff split: if_splits dest: set_takeWhileD)

lemma foldl_decimal_ge: "a \<le> foldl (\<lambda>n c. 10 * n + digitVal c) a cs"
proof (induction cs arbitrary: a)
  case Nil
  show ?case by simp
next
  case (Cons c cs)
  have "a \<le> 10 * a + digitVal c" by simp
  also have "\<dots> \<le> foldl (\<lambda>n c. 10 * n + digitVal c) (10 * a + digitVal c) cs"
    by (rule Cons.IH)
  finally show ?case by simp
qed

lemma digitVal_zero:
  assumes "isDigit c" and "digitVal c = 0"
  shows "c = CHR ''0''"
proof -
  from assms have "byte c = byte (CHR ''0'')"
    by (simp add: isDigit_def digitVal_def)
  then show ?thesis by (simp only: byte_eq_iff)
qed

lemma digitVal_one:
  assumes "digitVal c = 1"
  shows "c = CHR ''1''"
proof -
  have "byte (CHR ''1'') = Suc (byte (CHR ''0''))" by (simp add: byte_def)
  with assms have "byte c = byte (CHR ''1'')"
    by (simp add: digitVal_def)
  then show ?thesis by (simp only: byte_eq_iff)
qed

lemma decimal_zero:
  assumes "canonical t"
  shows "decimal t = 0 \<longleftrightarrow> t = ''0''"
proof
  assume z: "decimal t = 0"
  from assms obtain c cs where t: "t = c # cs" by (cases t) (auto simp: canonical_def)
  from assms t have d: "isDigit c" by (simp add: canonical_def)
  have "digitVal c \<le> decimal t"
    using foldl_decimal_ge[of "digitVal c" cs] by (simp add: decimal_def t)
  with z have "digitVal c = 0" by simp
  with d have "c = CHR ''0''" by (rule digitVal_zero)
  with assms t show "t = ''0''" by (simp add: canonical_def)
next
  assume "t = ''0''"
  then show "decimal t = 0" by (simp add: decimal_def digitVal_def byte_def)
qed

lemma decimal_one:
  assumes "canonical t"
  shows "decimal t = 1 \<longleftrightarrow> t = ''1''"
proof
  assume z: "decimal t = 1"
  from assms obtain c cs where t: "t = c # cs" by (cases t) (auto simp: canonical_def)
  from assms t have d: "isDigit c" by (simp add: canonical_def)
  show "t = ''1''"
  proof (cases cs)
    case Nil
    with z t have "digitVal c = 1" by (simp add: decimal_def)
    then have "c = CHR ''1''" by (rule digitVal_one)
    with Nil t show ?thesis by simp
  next
    case (Cons e es)
    have ge: "10 * digitVal c + digitVal e \<le> decimal t"
      using foldl_decimal_ge[of "10 * digitVal c + digitVal e" es]
      by (simp add: decimal_def t Cons)
    from assms t Cons have "c \<noteq> CHR ''0''" by (auto simp: canonical_def)
    with d have "digitVal c \<noteq> 0" using digitVal_zero by blast
    with ge z show ?thesis by simp
  qed
next
  assume "t = ''1''"
  then show "decimal t = 1" by (simp add: decimal_def digitVal_def byte_def)
qed

lemma canonical_zero: "canonical ''0''"
  by (simp add: canonical_def isDigit_def byte_def)

lemma parseBuildPart_numbers:
  "parseBuildPart p v = Some q \<Longrightarrow>
     major q = major p \<and> minor q = minor p \<and> patch q = patch p"
  by (auto simp: parseBuildPart_def split: if_splits option.splits)

lemma parseTail_numbers:
  "parseTail p v = Some q \<Longrightarrow> major q = major p \<and> minor q = minor p \<and> patch q = patch p"
  by (auto simp: parseTail_def split: if_splits option.splits dest!: parseBuildPart_numbers)

lemma parse_canonical:
  assumes "parse v = Some p"
  shows "canonical (major p) \<and> canonical (minor p) \<and> canonical (patch p)"
  using assms
  apply (auto simp: parse_def canonical_zero split: list.splits if_splits option.splits
      dest!: parseTail_numbers)
  apply (erule parseInt_canonical)+
  done

lemma compareInt_zero: "compareInt x y = 0 \<longleftrightarrow> x = y"
  by (simp add: compareInt_def)

lemma comparePrerelease_empty: "comparePrerelease x [] = (if x = [] then 0 else - 1)"
  by (simp add: comparePrerelease_def)

lemma comparePrerelease_empty_left: "comparePrerelease [] x = (if x = [] then 0 else 1)"
  by (auto simp add: comparePrerelease_def)

lemma parse_v01:
  "parse ''v0.1'' = Some \<lparr>major = ''0'', minor = ''1'', patch = ''0'', short = ''.0'',
     prerelease = [], build = []\<rparr>"
  by (simp add: parse_def parseInt_def isDigit_def byte_def)

text \<open>
  A version compares equal to \<open>v0.1\<close> exactly when it is valid, its numbers are 0, 1
  and 0, and it has no pre-release part.
\<close>

lemma Compare_v01_zero:
  "Compare w ''v0.1'' = 0 \<longleftrightarrow>
     (case parse w of
        None \<Rightarrow> False
      | Some p \<Rightarrow> major p = ''0'' \<and> minor p = ''1'' \<and> patch p = ''0'' \<and> prerelease p = [])"
  by (auto simp: Compare_def parse_v01 compareInt_zero comparePrerelease_empty
      split: option.splits)

lemma checkOutputVersion_iff_zero:
  "checkOutputVersion v \<longleftrightarrow> Compare (withPrefix v) ''v0.1'' = 0"
  by (auto simp: checkOutputVersion_def minOutputVersion_def maxOutputVersion_def)

lemma inVersionRange_v01:
  "inVersionRange ''v0.1'' ''v0.1'' w \<longleftrightarrow>
     (case parse w of
        None \<Rightarrow> False
      | Some p \<Rightarrow> major p = ''0'' \<and> minor p = ''1'' \<and> patch p = ''0'' \<and> prerelease p = [])"
proof (cases "parse w")
  case None
  then show ?thesis by (simp add: inVersionRange_def parse_v01)
next
  case (Some p)
  then have c: "canonical (major p)" "canonical (minor p)" "canonical (patch p)"
    using parse_canonical by blast+
  have d0: "decimal ''0'' = 0" and d1: "decimal ''1'' = 1"
    by (simp_all add: decimal_def digitVal_def byte_def)
  show ?thesis
    using decimal_zero[OF c(1)] decimal_one[OF c(2)] decimal_zero[OF c(3)]
    by (auto simp: Some inVersionRange_def parse_v01 precedes_def d0 d1
        comparePrerelease_empty comparePrerelease_empty_left)
qed

text \<open>
  C2. For every version string \<open>v\<close>, \<open>checkOutputVersion v\<close> is true if and only if
  \<open>v\<close>, with a \<open>v\<close> put in front when it has none, lies in the closed semantic-version
  range from \<open>v0.1\<close> to \<open>v0.1\<close>. In particular \<open>0.1\<close> and \<open>v0.1\<close> are accepted, and
  \<open>0.0\<close> and \<open>0.2\<close> are rejected.
\<close>

theorem checkOutputVersion_range:
  "(checkOutputVersion v \<longleftrightarrow>
      inVersionRange (''v'' @ minOutputVersion) (''v'' @ maxOutputVersion) (withPrefix v))
   \<and> ''v'' @ minOutputVersion = ''v0.1'' \<and> ''v'' @ maxOutputVersion = ''v0.1''
   \<and> checkOutputVersion ''0.1'' \<and> checkOutputVersion ''v0.1''
   \<and> \<not> checkOutputVersion ''0.0'' \<and> \<not> checkOutputVersion ''0.2''"
proof -
  have "checkOutputVersion v \<longleftrightarrow> inVersionRange ''v0.1'' ''v0.1'' (withPrefix v)"
    by (simp only: checkOutputVersion_iff_zero Compare_v01_zero inVersionRange_v01)
  moreover have "checkOutputVersion ''0.1''" by code_simp
  moreover have "checkOutputVersion ''v0.1''" by code_simp
  moreover have "\<not> checkOutputVersion ''0.0''" by code_simp
  moreover have "\<not> checkOutputVersion ''0.2''" by code_simp
  ultimately show ?thesis by (simp add: minOutputVersion_def maxOutputVersion_def)
qed

theorem checkOutputVersion_range_witness:
  "checkOutputVersion ''0.1.0'' \<and> inVersionRange ''v0.1'' ''v0.1'' ''v0.1.0''
   \<and> \<not> checkOutputVersion ''0.1.1'' \<and> \<not> inVersionRange ''v0.1'' ''v0.1'' ''v0.1.1''"
proof -
  have a: "checkOutputVersion ''0.1.0''" and b: "\<not> checkOutputVersion ''0.1.1''"
    by code_simp+
  have p: "withPrefix ''0.1.0'' = ''v0.1.0''" "withPrefix ''0.1.1'' = ''v0.1.1''"
    by code_simp+
  from a b checkOutputVersion_range[of "''0.1.0''"] checkOutputVersion_range[of "''0.1.1''"]
  show ?thesis by (simp only: p) simp
qed



section \<open>Properties of the output command\<close>

lemma globPaths_concat: "globPaths g acc ps = acc @ concat (map g ps)"
  by (induction ps arbitrary: acc) simp_all

lemma globPaths_no_match: "\<forall>p\<in>set ps. g p = [] \<Longrightarrow> globPaths g [] ps = []"
  by (simp add: globPaths_concat)

lemma loadInputs_Inr:
  "loadInputs env acc files = Inr inputs \<Longrightarrow>
     (\<forall>f\<in>set files. \<exists>j. document env f = Some j \<and> checkOutputVersion (Version j))
     \<and> map Metadata inputs = map Metadata acc @ map (\<lambda>f. [(''filename'', f)]) files"
proof (induction files arbitrary: acc)
  case Nil
  then show ?case by simp
next
  case (Cons f fs)
  from Cons.prems obtain data j where
    r: "ReadFile env f = Inr data" and l: "Load env data = Inr j"
    and v: "checkOutputVersion (Version j)"
    and rest: "loadInputs env (acc @ [\<lparr>Metadata = [(''filename'', f)], Root = j\<rparr>]) fs = Inr inputs"
    by (auto split: sum.splits if_splits)
  from r l have "document env f = Some j" by (simp add: document_def)
  with v Cons.IH[OF rest] show ?case by simp
qed

lemma loadInputs_accepted_prefix:
  "\<forall>g\<in>set pre. \<exists>j. document env g = Some j \<and> checkOutputVersion (Version j) \<Longrightarrow>
     \<exists>acc'. loadInputs env acc (pre @ rest) = loadInputs env acc' rest"
proof (induction pre arbitrary: acc)
  case Nil
  show ?case by auto
next
  case (Cons g gs)
  from Cons.prems obtain j where d: "document env g = Some j" and v: "checkOutputVersion (Version j)"
    by auto
  from d obtain data where r: "ReadFile env g = Inr data" and l: "Load env data = Inr j"
    by (auto simp: document_def split: sum.splits)
  from Cons.prems have "\<forall>g\<in>set gs. \<exists>j. document env g = Some j \<and> checkOutputVersion (Version j)"
    by simp
  from Cons.IH[OF this] obtain acc' where
    "loadInputs env (acc @ [\<lparr>Metadata = [(''filename'', g)], Root = j\<rparr>]) (gs @ rest)
       = loadInputs env acc' rest"
    by blast
  with r l v show ?case by auto
qed

lemma loadInputs_version_error:
  assumes "\<forall>g\<in>set files. document env g \<noteq> None"
    and "f \<in> set files" and "document env f = Some j" and "\<not> checkOutputVersion (Version j)"
  shows "loadInputs env acc files = Inl versionError"
  using assms
proof (induction files arbitrary: acc)
  case Nil
  then show ?case by simp
next
  case (Cons g gs)
  from Cons.prems(1) obtain k where dk: "document env g = Some k" by auto
  then obtain data where r: "ReadFile env g = Inr data" and l: "Load env data = Inr k"
    by (auto simp: document_def split: sum.splits)
  show ?case
  proof (cases "checkOutputVersion (Version k)")
    case False
    with r l show ?thesis by simp
  next
    case True
    with dk Cons.prems(2,3,4) have "f \<in> set gs" by auto
    with Cons.IH Cons.prems have
      "loadInputs env (acc @ [\<lparr>Metadata = [(''filename'', g)], Root = k\<rparr>]) gs = Inl versionError"
      by simp
    with r l True show ?thesis by simp
  qed
qed

lemma loadInputs_rejected:
  assumes "f \<in> set files" and "document env f = Some j" and "\<not> checkOutputVersion (Version j)"
  shows "\<exists>e. loadInputs env acc files = Inl e"
proof (cases "loadInputs env acc files")
  case (Inl e)
  then show ?thesis by simp
next
  case (Inr inputs)
  from loadInputs_Inr[OF Inr] assms show ?thesis by auto
qed

lemma RunE_loaded:
  "resolveInputFiles env cmd = Inr files \<Longrightarrow> loadInputs env [] files = Inr inputs \<Longrightarrow>
     RunE env cmd = renderInputs env cmd inputs"
  by (simp add: RunE_def)

lemma RunE_load_error:
  "resolveInputFiles env cmd = Inr files \<Longrightarrow> loadInputs env [] files = Inl e \<Longrightarrow>
     RunE env cmd = \<lparr>warnings = [], stdout = [], outcome = Return (Some e)\<rparr>"
  by (simp add: RunE_def)

lemma warnings_renderInputs:
  "warnings (renderInputs env cmd inputs) =
     fst (selectFields (fieldsFlag cmd))
       @ (if Changed (fieldsFlag cmd) \<and> flagValue (formatFlag cmd) ''table'' \<noteq> ''table''
          then [FieldsTableOnly] else [])"
  by (simp add: renderInputs_def Let_def split: sum.splits)

lemma output_renderInputs:
  "(case render env (selectRenderer (unicodeToLower env) (flagValue (formatFlag cmd) ''table''))
          (Combine env inputs (outputOptions env cmd)) (outputOptions env cmd) of
      Inl err \<Rightarrow> stdout (renderInputs env cmd inputs) = []
                 \<and> outcome (renderInputs env cmd inputs) = Return (Some err)
    | Inr b \<Rightarrow> stdout (renderInputs env cmd inputs) = [b @ newline]
               \<and> outcome (renderInputs env cmd inputs) = Return None)"
  by (simp add: renderInputs_def Let_def split: sum.splits)

lemma warnings_RunE_no_fields:
  "fieldsFlag cmd = None \<Longrightarrow> warnings (RunE env cmd) = []"
  by (simp add: RunE_def PrintUsageErrorAndExit_def warnings_renderInputs selectFields_def
      Changed_def split: sum.splits)

lemma contains_iff: "contains arr e \<longleftrightarrow> e \<in> set arr"
  by (induction arr) auto

lemma invalidFieldWarnings_eq:
  "invalidFieldWarnings req =
     map (\<lambda>f. InvalidField f validFields) (filter (\<lambda>f. f \<notin> set validFields) req)"
  by (induction req) (simp_all add: contains_iff)

lemma selectFields_Some:
  "selectFields (Some req) =
     (if req = [] then ([FieldsEmpty fieldsDefValue], defaultFields)
      else (invalidFieldWarnings req, req))"
  by (simp add: selectFields_def Changed_def flagValue_def)

lemma selectFields_None: "selectFields None = ([], defaultFields)"
  by (simp add: selectFields_def Changed_def)

lemma ToLower_ascii:
  "list_all (\<lambda>c. byte c < 128) s \<Longrightarrow> ToLower uni s = map lowerASCII s"
  by (auto simp: ToLower_def list_ex_iff lowerASCII_def intro: map_idI[symmetric])

lemma ToLower_names:
  "ToLower uni ''json'' = ''json''" "ToLower uni ''html'' = ''html''"
  "ToLower uni ''diff'' = ''diff''" "ToLower uni ''table'' = ''table''"
  "ToLower uni ''JSON'' = ''json''" "ToLower uni ''TABLE'' = ''table''"
  by (simp_all add: ToLower_def isUpperASCII_def lowerASCII_def byte_def char_of_def bit_Suc_0_iff)


subsection \<open>Aborting on a bad input\<close>

text \<open>
  C3. When the input files of a run are resolved and one of them holds a document whose
  version fails the gate, \<open>RunE\<close> returns an error, with no warning and nothing printed:
  no combined report is made and nothing is rendered for any input. When moreover every
  input file holds a document (the batch is a batch of documents), the error is the
  version error, whose message names the supported range,
  "Supported versions are 0.1 \<le> x \<le> 0.1" (the sign \<le> as its three UTF-8 bytes).
\<close>

theorem version_gate_aborts_batch:
  assumes "resolveInputFiles env cmd = Inr files"
    and "f \<in> set files" and "document env f = Some j"
    and "\<not> checkOutputVersion (Version j)"
  shows "(\<exists>e. RunE env cmd = \<lparr>warnings = [], stdout = [], outcome = Return (Some e)\<rparr>)
    \<and> ((\<forall>g\<in>set files. document env g \<noteq> None) \<longrightarrow>
         RunE env cmd = \<lparr>warnings = [], stdout = [], outcome = Return (Some versionError)\<rparr>)
    \<and> errorMessage versionError =
         ''Invalid Infracost JSON file version. Supported versions are 0.1 ''
           @ [CHR 0xE2, CHR 0x89, CHR 0xA4] @ '' x '' @ [CHR 0xE2, CHR 0x89, CHR 0xA4] @ '' 0.1''"
proof -
  from loadInputs_rejected[OF assms(2,3,4)] obtain e where "loadInputs env [] files = Inl e"
    by blast
  with assms(1) have a: "\<exists>e. RunE env cmd = \<lparr>warnings = [], stdout = [], outcome = Return (Some e)\<rparr>"
    by (simp add: RunE_load_error)
  have b: "RunE env cmd = \<lparr>warnings = [], stdout = [], outcome = Return (Some versionError)\<rparr>"
    if "\<forall>g\<in>set files. document env g \<noteq> None"
    using loadInputs_version_error[OF that assms(2,3,4)] assms(1) by (simp add: RunE_load_error)
  have c: "errorMessage versionError =
         ''Invalid Infracost JSON file version. Supported versions are 0.1 ''
           @ [CHR 0xE2, CHR 0x89, CHR 0xA4] @ '' x '' @ [CHR 0xE2, CHR 0x89, CHR 0xA4] @ '' 0.1''"
    by (simp add: versionError_def minOutputVersion_def maxOutputVersion_def leq_def)
  from a b c show ?thesis by blast
qed

theorem version_gate_aborts_batch_witness:
  "resolveInputFiles demoEnv (demoCmd\<lparr>pathFlag := Some [''a.json'', ''old.json'', ''b.json'']\<rparr>)
     = Inr [''a.json'', ''old.json'', ''b.json'']
   \<and> document demoEnv ''old.json'' = Some \<lparr>Version = ''0.0'', Payload = ()\<rparr>
   \<and> \<not> checkOutputVersion ''0.0''
   \<and> document demoEnv ''a.json'' \<noteq> None \<and> document demoEnv ''b.json'' \<noteq> None
   \<and> RunE demoEnv (demoCmd\<lparr>pathFlag := Some [''a.json'', ''old.json'', ''b.json'']\<rparr>)
     = \<lparr>warnings = [], stdout = [], outcome = Return (Some versionError)\<rparr>"
proof -
  let ?cmd = "demoCmd\<lparr>pathFlag := Some [''a.json'', ''old.json'', ''b.json'']\<rparr>"
  have h1: "resolveInputFiles demoEnv ?cmd = Inr [''a.json'', ''old.json'', ''b.json'']"
    by code_simp
  have h2: "''old.json'' \<in> set [''a.json'', ''old.json'', ''b.json'']" by simp
  have h3: "document demoEnv ''old.json'' = Some \<lparr>Version = ''0.0'', Payload = ()\<rparr>"
    by code_simp
  have h4: "\<not> checkOutputVersion (Version \<lparr>Version = ''0.0'', Payload = ()\<rparr>)"
    by code_simp
  have h5: "document demoEnv ''a.json'' \<noteq> None" "document demoEnv ''b.json'' \<noteq> None"
    by code_simp+
  from version_gate_aborts_batch[OF h1 h2 h3 h4] h1 h3 h4 h5 show ?thesis by simp
qed

text \<open>
  C10. The input files are processed in the order in which they were resolved (for the
  \<open>output\<close> command, the matches of the \<open>--path\<close> patterns, pattern after pattern).
  When the files before \<open>f\<close> were read, parsed and accepted, and \<open>f\<close> cannot be read,
  \<open>RunE\<close> returns that error wrapped as "Error reading JSON file"; when \<open>f\<close> is read and
  does not parse, it returns the parser's error wrapped as "Error parsing JSON file".
  In both cases nothing is combined, rendered or printed, whatever files come after \<open>f\<close>.
\<close>

theorem first_unreadable_file_aborts:
  assumes "resolveInputFiles env cmd = Inr (pre @ f # post)"
    and "\<forall>g\<in>set pre. \<exists>j. document env g = Some j \<and> checkOutputVersion (Version j)"
  shows "(ReadFile env f = Inl e \<longrightarrow>
            RunE env cmd = \<lparr>warnings = [], stdout = [],
              outcome = Return (Some (Wrap e ''Error reading JSON file''))\<rparr>)
    \<and> (ReadFile env f = Inr data \<and> Load env data = Inl e \<longrightarrow>
            RunE env cmd = \<lparr>warnings = [], stdout = [],
              outcome = Return (Some (Wrap e ''Error parsing JSON file''))\<rparr>)
    \<and> (Name cmd \<noteq> ''report'' \<and> pathFlag cmd = Some paths \<longrightarrow>
            pre @ f # post = concat (map (Glob env) paths))
    \<and> errorMessage (Wrap e ''Error reading JSON file'')
         = ''Error reading JSON file: '' @ errorMessage e
    \<and> errorMessage (Wrap e ''Error parsing JSON file'')
         = ''Error parsing JSON file: '' @ errorMessage e"
proof -
  from loadInputs_accepted_prefix[OF assms(2)] obtain acc' where
    p: "loadInputs env [] (pre @ f # post) = loadInputs env acc' (f # post)"
    by blast
  have a: "RunE env cmd = \<lparr>warnings = [], stdout = [],
              outcome = Return (Some (Wrap e ''Error reading JSON file''))\<rparr>"
    if "ReadFile env f = Inl e"
    using that p assms(1) by (simp add: RunE_load_error)
  have b: "RunE env cmd = \<lparr>warnings = [], stdout = [],
              outcome = Return (Some (Wrap e ''Error parsing JSON file''))\<rparr>"
    if "ReadFile env f = Inr data \<and> Load env data = Inl e"
    using that p assms(1) by (simp add: RunE_load_error)
  have c: "pre @ f # post = concat (map (Glob env) paths)"
    if "Name cmd \<noteq> ''report'' \<and> pathFlag cmd = Some paths"
    using that assms(1)
    by (simp add: resolveInputFiles_def Changed_def flagValue_def globPaths_concat)
  from a b c show ?thesis by simp
qed

theorem first_unreadable_file_aborts_witness:
  "resolveInputFiles demoEnv (demoCmd\<lparr>pathFlag := Some [''*.json'', ''locked.json'', ''old.json'']\<rparr>)
     = Inr ([''a.json'', ''b.json''] @ ''locked.json'' # [''old.json''])
   \<and> document demoEnv ''a.json'' = Some \<lparr>Version = ''0.1'', Payload = ()\<rparr>
   \<and> document demoEnv ''b.json'' = Some \<lparr>Version = ''0.1'', Payload = ()\<rparr>
   \<and> checkOutputVersion ''0.1''
   \<and> ReadFile demoEnv ''locked.json'' = Inl (External ''open locked.json: permission denied'')
   \<and> RunE demoEnv (demoCmd\<lparr>pathFlag := Some [''*.json'', ''locked.json'', ''old.json'']\<rparr>)
     = \<lparr>warnings = [], stdout = [],
        outcome = Return (Some (Wrap (External ''open locked.json: permission denied'')
                    ''Error reading JSON file''))\<rparr>
   \<and> resolveInputFiles demoEnv (demoCmd\<lparr>pathFlag := Some [''a.json'', ''broken.json'']\<rparr>)
     = Inr ([''a.json''] @ ''broken.json'' # [])
   \<and> ReadFile demoEnv ''broken.json'' = Inr ''{''
   \<and> Load demoEnv ''{'' = Inl (External ''unexpected end of JSON input'')
   \<and> RunE demoEnv (demoCmd\<lparr>pathFlag := Some [''a.json'', ''broken.json'']\<rparr>)
     = \<lparr>warnings = [], stdout = [],
        outcome = Return (Some (Wrap (External ''unexpected end of JSON input'')
                    ''Error parsing JSON file''))\<rparr>"
proof -
  let ?c1 = "demoCmd\<lparr>pathFlag := Some [''*.json'', ''locked.json'', ''old.json'']\<rparr>"
  let ?c2 = "demoCmd\<lparr>pathFlag := Some [''a.json'', ''broken.json'']\<rparr>"
  have r1: "resolveInputFiles demoEnv ?c1
      = Inr ([''a.json'', ''b.json''] @ ''locked.json'' # [''old.json''])"
    by code_simp
  have r2: "resolveInputFiles demoEnv ?c2 = Inr ([''a.json''] @ ''broken.json'' # [])"
    by code_simp
  have da: "document demoEnv ''a.json'' = Some \<lparr>Version = ''0.1'', Payload = ()\<rparr>"
    and db: "document demoEnv ''b.json'' = Some \<lparr>Version = ''0.1'', Payload = ()\<rparr>"
    by code_simp+
  have ok: "checkOutputVersion ''0.1''" by code_simp
  have p1: "\<forall>g\<in>set [''a.json'', ''b.json''].
      \<exists>j. document demoEnv g = Some j \<and> checkOutputVersion (Version j)"
    using da db ok by simp
  have p2: "\<forall>g\<in>set [''a.json''].
      \<exists>j. document demoEnv g = Some j \<and> checkOutputVersion (Version j)"
    using da ok by simp
  have e1: "ReadFile demoEnv ''locked.json''
      = Inl (External ''open locked.json: permission denied'')"
    by code_simp
  have e2: "ReadFile demoEnv ''broken.json'' = Inr ''{''"
    and e3: "Load demoEnv ''{'' = Inl (External ''unexpected end of JSON input'')"
    by code_simp+
  from first_unreadable_file_aborts[OF r1 p1,
      of "External ''open locked.json: permission denied''"]
    first_unreadable_file_aborts[OF r2 p2, of "External ''unexpected end of JSON input''" "''{''"]
    r1 r2 da db ok e1 e2 e3
  show ?thesis by simp
qed

subsection \<open>Runs without input files\<close>

text \<open>
  C4, as stated, fails: with the \<open>--path\<close> flag given and a pattern that matches no
  file, the command raises no error; it combines the empty list of inputs, renders it
  and prints the result.
\<close>

theorem no_rendered_report_without_path_counterexample:
  "Name (demoCmd\<lparr>pathFlag := Some [''none*.json'']\<rparr>) = ''output''
   \<and> pathFlag (demoCmd\<lparr>pathFlag := Some [''none*.json'']\<rparr>) = Some [''none*.json'']
   \<and> Glob demoEnv ''none*.json'' = []
   \<and> RunE demoEnv (demoCmd\<lparr>pathFlag := Some [''none*.json'']\<rparr>)
     = \<lparr>warnings = [], stdout = [''table; monthlyQuantity unit monthlyCost'' @ newline],
        outcome = Return None\<rparr>"
  by code_simp

text \<open>
  C4, amended. When the \<open>output\<close> command (not its deprecated alias \<open>report\<close>) is
  invoked without the \<open>--path\<close> flag, it ends with the usage error "No path specified
  ...", with no warning and nothing printed. When the flag is given and none of its
  patterns matches a file, the command does not stop for that: it goes on to combine and
  render the empty list of inputs, and \<open>RunE\<close> returns.
\<close>

theorem missing_path_flag_exits:
  "(Name cmd \<noteq> ''report'' \<and> pathFlag cmd = None \<longrightarrow>
      RunE env cmd = \<lparr>warnings = [], stdout = [],
        outcome = Exit (''No path specified'' @ newline @ newline @ ''Use the ''
          @ PrimaryString env ''--path''
          @ '' flag to specify the path to an Infracost JSON file.'')\<rparr>)
   \<and> (Name cmd \<noteq> ''report'' \<and> pathFlag cmd = Some paths \<and> (\<forall>p\<in>set paths. Glob env p = []) \<longrightarrow>
      RunE env cmd = renderInputs env cmd []
      \<and> (\<exists>e. outcome (RunE env cmd) = Return e))"
proof -
  have a: "RunE env cmd = \<lparr>warnings = [], stdout = [],
        outcome = Exit (''No path specified'' @ newline @ newline @ ''Use the ''
          @ PrimaryString env ''--path''
          @ '' flag to specify the path to an Infracost JSON file.'')\<rparr>"
    if "Name cmd \<noteq> ''report'' \<and> pathFlag cmd = None"
    using that
    by (simp add: RunE_def resolveInputFiles_def Changed_def PrintUsageErrorAndExit_def
        noPathMessage_def)
  have b: "RunE env cmd = renderInputs env cmd [] \<and> (\<exists>e. outcome (RunE env cmd) = Return e)"
    if h: "Name cmd \<noteq> ''report'' \<and> pathFlag cmd = Some paths \<and> (\<forall>p\<in>set paths. Glob env p = [])"
  proof -
    from h have "resolveInputFiles env cmd = Inr []"
      by (simp add: resolveInputFiles_def Changed_def flagValue_def globPaths_no_match)
    then have r: "RunE env cmd = renderInputs env cmd []" by (simp add: RunE_def)
    have "\<exists>e. outcome (renderInputs env cmd []) = Return e"
      by (simp add: renderInputs_def Let_def split: sum.splits)
    with r show ?thesis by simp
  qed
  from a b show ?thesis by blast
qed

theorem missing_path_flag_exits_witness:
  "Name (demoCmd\<lparr>pathFlag := None\<rparr>) \<noteq> ''report''
   \<and> pathFlag (demoCmd\<lparr>pathFlag := None\<rparr>) = None
   \<and> RunE demoEnv (demoCmd\<lparr>pathFlag := None\<rparr>)
     = \<lparr>warnings = [], stdout = [],
        outcome = Exit (''No path specified'' @ newline @ newline
          @ ''Use the --path flag to specify the path to an Infracost JSON file.'')\<rparr>
   \<and> pathFlag (demoCmd\<lparr>pathFlag := Some [''none*.json'']\<rparr>) = Some [''none*.json'']
   \<and> Glob demoEnv ''none*.json'' = []
   \<and> RunE demoEnv (demoCmd\<lparr>pathFlag := Some [''none*.json'']\<rparr>)
     = renderInputs demoEnv (demoCmd\<lparr>pathFlag := Some [''none*.json'']\<rparr>) []"
proof -
  let ?c1 = "demoCmd\<lparr>pathFlag := None\<rparr>"
  let ?c2 = "demoCmd\<lparr>pathFlag := Some [''none*.json'']\<rparr>"
  have n: "Name ?c1 \<noteq> ''report''" "Name ?c2 \<noteq> ''report''" by (simp_all add: demoCmd_def)
  have p: "pathFlag ?c1 = None" "pathFlag ?c2 = Some [''none*.json'']" by simp_all
  have g: "Glob demoEnv ''none*.json'' = []" by code_simp
  have pr: "PrimaryString demoEnv ''--path'' = ''--path''" by (simp add: demoEnv_def)
  from missing_path_flag_exits[where cmd = ?c1 and env = demoEnv]
    missing_path_flag_exits[where cmd = ?c2 and env = demoEnv and paths = "[''none*.json'']"]
    n p g pr
  show ?thesis by simp
qed

subsection \<open>The fields given to the renderer\<close>

text \<open>
  C1, as stated, fails: a requested identifier outside the valid set is reported by a
  warning and is still passed on. With \<open>--fields price,cost\<close> the renderer receives the
  fields \<open>price\<close> and \<open>cost\<close>, and \<open>cost\<close> is not a valid field.
\<close>

theorem fields_subset_of_valid_counterexample:
  "fieldsFlag (demoCmd\<lparr>fieldsFlag := Some [''price'', ''cost'']\<rparr>) = Some [''price'', ''cost'']
   \<and> Fields (outputOptions demoEnv (demoCmd\<lparr>fieldsFlag := Some [''price'', ''cost'']\<rparr>))
       = [''price'', ''cost'']
   \<and> ''cost'' \<notin> set validFields
   \<and> RunE demoEnv (demoCmd\<lparr>fieldsFlag := Some [''price'', ''cost'']\<rparr>)
     = \<lparr>warnings = [InvalidField ''cost'' validFields],
        stdout = [''table a.json b.json; price cost'' @ newline],
        outcome = Return None\<rparr>"
  by code_simp

text \<open>
  C1, amended. For every explicitly requested list of field identifiers, in a run that
  reaches the rendering, the command emits one warning for each requested identifier
  that is not in the valid set \<open>{price, monthlyQuantity, unit, hourlyCost, monthlyCost}\<close>,
  in the order of the request, and does not remove it: the field list passed to the
  renderer is the requested list unchanged when it is not empty, and the default list
  when it is empty. So the valid identifiers keep their relative order, and the list is a
  subset of the valid set when every requested identifier is valid.
\<close>

theorem fields_projection:
  assumes "resolveInputFiles env cmd = Inr files"
    and "loadInputs env [] files = Inr inputs"
    and "fieldsFlag cmd = Some req"
  shows "set validFields = {''price'', ''monthlyQuantity'', ''unit'', ''hourlyCost'', ''monthlyCost''}
    \<and> filter (\<lambda>w. w \<noteq> FieldsTableOnly \<and> w \<noteq> FieldsEmpty fieldsDefValue) (warnings (RunE env cmd))
        = map (\<lambda>f. InvalidField f validFields) (filter (\<lambda>f. f \<notin> set validFields) req)
    \<and> Fields (outputOptions env cmd)
        = (if req = [] then [''monthlyQuantity'', ''unit'', ''monthlyCost''] else req)
    \<and> filter (\<lambda>f. f \<in> set validFields) (Fields (outputOptions env cmd))
        = (if req = [] then [''monthlyQuantity'', ''unit'', ''monthlyCost'']
           else filter (\<lambda>f. f \<in> set validFields) req)
    \<and> (set req \<subseteq> set validFields \<longrightarrow> set (Fields (outputOptions env cmd)) \<subseteq> set validFields)
    \<and> (case render env (selectRenderer (unicodeToLower env) (flagValue (formatFlag cmd) ''table''))
              (Combine env inputs (outputOptions env cmd)) (outputOptions env cmd) of
          Inl err \<Rightarrow> stdout (RunE env cmd) = [] \<and> outcome (RunE env cmd) = Return (Some err)
        | Inr b \<Rightarrow> stdout (RunE env cmd) = [b @ newline] \<and> outcome (RunE env cmd) = Return None)"
proof -
  have r: "RunE env cmd = renderInputs env cmd inputs"
    using assms(1,2) by (rule RunE_loaded)
  have v: "set validFields = {''price'', ''monthlyQuantity'', ''unit'', ''hourlyCost'', ''monthlyCost''}"
    by (simp add: validFields_def)
  have w: "filter (\<lambda>w. w \<noteq> FieldsTableOnly \<and> w \<noteq> FieldsEmpty fieldsDefValue) (warnings (RunE env cmd))
        = map (\<lambda>f. InvalidField f validFields) (filter (\<lambda>f. f \<notin> set validFields) req)"
    by (simp add: r warnings_renderInputs assms(3) selectFields_Some invalidFieldWarnings_eq
        filter_map comp_def)
  have f: "Fields (outputOptions env cmd)
        = (if req = [] then [''monthlyQuantity'', ''unit'', ''monthlyCost''] else req)"
    by (simp add: outputOptions_def assms(3) selectFields_Some defaultFields_def)
  have g: "filter (\<lambda>f. f \<in> set validFields) (Fields (outputOptions env cmd))
        = (if req = [] then [''monthlyQuantity'', ''unit'', ''monthlyCost'']
           else filter (\<lambda>f. f \<in> set validFields) req)"
    by (simp add: f) (simp add: validFields_def)
  have h: "set req \<subseteq> set validFields \<longrightarrow> set (Fields (outputOptions env cmd)) \<subseteq> set validFields"
    by (simp add: f) (simp add: validFields_def)
  have out: "(case render env (selectRenderer (unicodeToLower env) (flagValue (formatFlag cmd) ''table''))
              (Combine env inputs (outputOptions env cmd)) (outputOptions env cmd) of
          Inl err \<Rightarrow> stdout (RunE env cmd) = [] \<and> outcome (RunE env cmd) = Return (Some err)
        | Inr b \<Rightarrow> stdout (RunE env cmd) = [b @ newline] \<and> outcome (RunE env cmd) = Return None)"
    unfolding r by (rule output_renderInputs)
  show ?thesis
    by (intro conjI) (rule v w f g h out)+
qed

theorem fields_projection_witness:
  "resolveInputFiles demoEnv (demoCmd\<lparr>fieldsFlag := Some [''unit'', ''cost'', ''price'']\<rparr>)
     = Inr [''a.json'', ''b.json'']
   \<and> (\<exists>inputs. loadInputs demoEnv []  [''a.json'', ''b.json''] = Inr inputs)
   \<and> fieldsFlag (demoCmd\<lparr>fieldsFlag := Some [''unit'', ''cost'', ''price'']\<rparr>)
       = Some [''unit'', ''cost'', ''price'']
   \<and> warnings (RunE demoEnv (demoCmd\<lparr>fieldsFlag := Some [''unit'', ''cost'', ''price'']\<rparr>))
       = [InvalidField ''cost'' validFields]
   \<and> Fields (outputOptions demoEnv (demoCmd\<lparr>fieldsFlag := Some [''unit'', ''cost'', ''price'']\<rparr>))
       = [''unit'', ''cost'', ''price'']
   \<and> filter (\<lambda>f. f \<in> set validFields)
        (Fields (outputOptions demoEnv (demoCmd\<lparr>fieldsFlag := Some [''unit'', ''cost'', ''price'']\<rparr>)))
       = [''unit'', ''price'']"
proof -
  let ?cmd = "demoCmd\<lparr>fieldsFlag := Some [''unit'', ''cost'', ''price'']\<rparr>"
  let ?inputs = "[\<lparr>Metadata = [(''filename'', ''a.json'')], Root = \<lparr>Version = ''0.1'', Payload = ()\<rparr>\<rparr>,
                  \<lparr>Metadata = [(''filename'', ''b.json'')], Root = \<lparr>Version = ''0.1'', Payload = ()\<rparr>\<rparr>]"
  have h1: "resolveInputFiles demoEnv ?cmd = Inr [''a.json'', ''b.json'']" by code_simp
  have h2: "loadInputs demoEnv [] [''a.json'', ''b.json''] = Inr ?inputs" by code_simp
  have h3: "fieldsFlag ?cmd = Some [''unit'', ''cost'', ''price'']" by simp
  have w: "warnings (RunE demoEnv ?cmd) = [InvalidField ''cost'' validFields]" by code_simp
  have c: "''cost'' \<notin> set validFields" "''unit'' \<in> set validFields" "''price'' \<in> set validFields"
    by (simp_all add: validFields_def)
  from fields_projection[OF h1 h2 h3] h1 h2 h3 w c show ?thesis by simp
qed

text \<open>
  C5. When the fields flag is not given, the default fields \<open>monthlyQuantity\<close>, \<open>unit\<close>,
  \<open>monthlyCost\<close> are used and the run emits no warning at all. When the flag is given
  with an empty list, in a run that reaches the rendering, the same default fields are
  used and the warning "fields is empty, using defaults" is emitted (followed by the
  table-only warning when the format is not \<open>table\<close>).
\<close>

theorem default_fields:
  "(fieldsFlag cmd = None \<longrightarrow>
      Fields (outputOptions env cmd) = [''monthlyQuantity'', ''unit'', ''monthlyCost'']
      \<and> warnings (RunE env cmd) = [])
   \<and> (fieldsFlag cmd = Some [] \<and> resolveInputFiles env cmd = Inr files
        \<and> loadInputs env [] files = Inr inputs \<longrightarrow>
      Fields (outputOptions env cmd) = [''monthlyQuantity'', ''unit'', ''monthlyCost'']
      \<and> warnings (RunE env cmd)
          = FieldsEmpty ''[monthlyQuantity,unit,monthlyCost]''
            # (if flagValue (formatFlag cmd) ''table'' \<noteq> ''table'' then [FieldsTableOnly] else []))"
proof -
  have a: "Fields (outputOptions env cmd) = [''monthlyQuantity'', ''unit'', ''monthlyCost'']
      \<and> warnings (RunE env cmd) = []"
    if "fieldsFlag cmd = None"
    using that
    by (simp add: warnings_RunE_no_fields outputOptions_def selectFields_None defaultFields_def)
  have b: "Fields (outputOptions env cmd) = [''monthlyQuantity'', ''unit'', ''monthlyCost'']
      \<and> warnings (RunE env cmd)
          = FieldsEmpty ''[monthlyQuantity,unit,monthlyCost]''
            # (if flagValue (formatFlag cmd) ''table'' \<noteq> ''table'' then [FieldsTableOnly] else [])"
    if h: "fieldsFlag cmd = Some [] \<and> resolveInputFiles env cmd = Inr files
        \<and> loadInputs env [] files = Inr inputs"
  proof -
    from h have r: "RunE env cmd = renderInputs env cmd inputs" by (simp add: RunE_loaded)
    from h show ?thesis
      by (simp add: r warnings_renderInputs outputOptions_def selectFields_Some
          defaultFields_def fieldsDefValue_def Changed_def)
  qed
  from a b show ?thesis by blast
qed

theorem default_fields_witness:
  "fieldsFlag demoCmd = None
   \<and> RunE demoEnv demoCmd
     = \<lparr>warnings = [],
        stdout = [''table a.json b.json; monthlyQuantity unit monthlyCost'' @ newline],
        outcome = Return None\<rparr>
   \<and> fieldsFlag (demoCmd\<lparr>fieldsFlag := Some []\<rparr>) = Some []
   \<and> resolveInputFiles demoEnv (demoCmd\<lparr>fieldsFlag := Some []\<rparr>) = Inr [''a.json'', ''b.json'']
   \<and> (\<exists>inputs. loadInputs demoEnv [] [''a.json'', ''b.json''] = Inr inputs)
   \<and> RunE demoEnv (demoCmd\<lparr>fieldsFlag := Some []\<rparr>)
     = \<lparr>warnings = [FieldsEmpty ''[monthlyQuantity,unit,monthlyCost]''],
        stdout = [''table a.json b.json; monthlyQuantity unit monthlyCost'' @ newline],
        outcome = Return None\<rparr>"
proof -
  let ?cmd = "demoCmd\<lparr>fieldsFlag := Some []\<rparr>"
  let ?inputs = "[\<lparr>Metadata = [(''filename'', ''a.json'')], Root = \<lparr>Version = ''0.1'', Payload = ()\<rparr>\<rparr>,
                  \<lparr>Metadata = [(''filename'', ''b.json'')], Root = \<lparr>Version = ''0.1'', Payload = ()\<rparr>\<rparr>]"
  have n: "fieldsFlag demoCmd = None" by (simp add: demoCmd_def)
  have s: "fieldsFlag ?cmd = Some []" by simp
  have h1: "resolveInputFiles demoEnv ?cmd = Inr [''a.json'', ''b.json'']" by code_simp
  have h2: "loadInputs demoEnv [] [''a.json'', ''b.json''] = Inr ?inputs" by code_simp
  have f: "flagValue (formatFlag ?cmd) ''table'' = ''table''" by code_simp
  have o1: "stdout (RunE demoEnv demoCmd)
      = [''table a.json b.json; monthlyQuantity unit monthlyCost'' @ newline]"
    "outcome (RunE demoEnv demoCmd) = Return None"
    "stdout (RunE demoEnv ?cmd)
      = [''table a.json b.json; monthlyQuantity unit monthlyCost'' @ newline]"
    "outcome (RunE demoEnv ?cmd) = Return None"
    by code_simp+
  have eq: "\<And>r w so oc. warnings r = w \<Longrightarrow> stdout r = so \<Longrightarrow> outcome r = oc \<Longrightarrow>
      r = \<lparr>warnings = w, stdout = so, outcome = oc\<rparr>"
    by auto
  from default_fields[where cmd = demoCmd and env = demoEnv] n
  have w1: "warnings (RunE demoEnv demoCmd) = []" by simp
  from default_fields[where cmd = ?cmd and env = demoEnv and files = "[''a.json'', ''b.json'']"
      and inputs = ?inputs] s h1 h2 f
  have w2: "warnings (RunE demoEnv ?cmd) = [FieldsEmpty ''[monthlyQuantity,unit,monthlyCost]'']"
    by simp
  from n s h1 h2 eq[OF w1 o1(1,2)] eq[OF w2 o1(3,4)] show ?thesis by simp
qed

subsection \<open>The renderer\<close>

text \<open>
  C6, as stated, fails: \<open>JSON\<close> is a value other than \<open>json\<close>, \<open>html\<close> and \<open>diff\<close>, and
  it selects the JSON renderer, not the table renderer.
\<close>

theorem other_formats_select_table_counterexample:
  "''JSON'' \<noteq> ''json'' \<and> ''JSON'' \<noteq> ''html'' \<and> ''JSON'' \<noteq> ''diff''
   \<and> selectRenderer (unicodeToLower demoEnv) ''JSON'' = JSON
   \<and> RunE demoEnv (demoCmd\<lparr>formatFlag := Some ''JSON''\<rparr>)
     = \<lparr>warnings = [],
        stdout = [''json a.json b.json; monthlyQuantity unit monthlyCost'' @ newline],
        outcome = Return None\<rparr>"
  by code_simp

text \<open>
  C6, amended. For every format identifier exactly one renderer is selected, by the
  identifier in lower case: JSON when it is \<open>json\<close>, HTML when it is \<open>html\<close>, Diff when
  it is \<open>diff\<close>, and the table renderer for every other value, among them the default
  \<open>table\<close> and any identifier that is none of the three in lower case. In a run that
  reaches the rendering, what is printed and returned is the result of that renderer.
\<close>

theorem renderer_selection:
  "(selectRenderer uni format = JSON \<longleftrightarrow> ToLower uni format = ''json'')
   \<and> (selectRenderer uni format = HTML \<longleftrightarrow> ToLower uni format = ''html'')
   \<and> (selectRenderer uni format = Diff \<longleftrightarrow> ToLower uni format = ''diff'')
   \<and> (selectRenderer uni format = Table \<longleftrightarrow>
        ToLower uni format \<noteq> ''json'' \<and> ToLower uni format \<noteq> ''html''
        \<and> ToLower uni format \<noteq> ''diff'')
   \<and> selectRenderer uni ''json'' = JSON \<and> selectRenderer uni ''html'' = HTML
   \<and> selectRenderer uni ''diff'' = Diff \<and> selectRenderer uni ''table'' = Table
   \<and> selectRenderer uni (flagValue None ''table'') = Table
   \<and> (resolveInputFiles env cmd = Inr files \<and> loadInputs env [] files = Inr inputs \<longrightarrow>
       (case render env (selectRenderer (unicodeToLower env) (flagValue (formatFlag cmd) ''table''))
               (Combine env inputs (outputOptions env cmd)) (outputOptions env cmd) of
          Inl err \<Rightarrow> stdout (RunE env cmd) = [] \<and> outcome (RunE env cmd) = Return (Some err)
        | Inr b \<Rightarrow> stdout (RunE env cmd) = [b @ newline] \<and> outcome (RunE env cmd) = Return None))"
proof -
  have names: "selectRenderer uni ''json'' = JSON" "selectRenderer uni ''html'' = HTML"
    "selectRenderer uni ''diff'' = Diff" "selectRenderer uni ''table'' = Table"
    "selectRenderer uni (flagValue None ''table'') = Table"
    by (simp_all add: selectRenderer_def ToLower_names flagValue_def)
  have out: "(case render env (selectRenderer (unicodeToLower env) (flagValue (formatFlag cmd) ''table''))
               (Combine env inputs (outputOptions env cmd)) (outputOptions env cmd) of
          Inl err \<Rightarrow> stdout (RunE env cmd) = [] \<and> outcome (RunE env cmd) = Return (Some err)
        | Inr b \<Rightarrow> stdout (RunE env cmd) = [b @ newline] \<and> outcome (RunE env cmd) = Return None)"
    if "resolveInputFiles env cmd = Inr files \<and> loadInputs env [] files = Inr inputs"
  proof -
    from that have r: "RunE env cmd = renderInputs env cmd inputs" by (simp add: RunE_loaded)
    show ?thesis unfolding r by (rule output_renderInputs)
  qed
  have sel: "(selectRenderer uni format = JSON \<longleftrightarrow> ToLower uni format = ''json'')"
    "(selectRenderer uni format = HTML \<longleftrightarrow> ToLower uni format = ''html'')"
    "(selectRenderer uni format = Diff \<longleftrightarrow> ToLower uni format = ''diff'')"
    "(selectRenderer uni format = Table \<longleftrightarrow>
        ToLower uni format \<noteq> ''json'' \<and> ToLower uni format \<noteq> ''html''
        \<and> ToLower uni format \<noteq> ''diff'')"
    by (simp_all add: selectRenderer_def)
  from out have out': "resolveInputFiles env cmd = Inr files \<and> loadInputs env [] files = Inr inputs \<longrightarrow>
       (case render env (selectRenderer (unicodeToLower env) (flagValue (formatFlag cmd) ''table''))
               (Combine env inputs (outputOptions env cmd)) (outputOptions env cmd) of
          Inl err \<Rightarrow> stdout (RunE env cmd) = [] \<and> outcome (RunE env cmd) = Return (Some err)
        | Inr b \<Rightarrow> stdout (RunE env cmd) = [b @ newline] \<and> outcome (RunE env cmd) = Return None)"
    by (rule impI)
  show ?thesis
    by (intro conjI) (rule sel names out')+
qed

theorem renderer_selection_witness:
  "resolveInputFiles demoEnv (demoCmd\<lparr>formatFlag := Some ''html''\<rparr>) = Inr [''a.json'', ''b.json'']
   \<and> (\<exists>inputs. loadInputs demoEnv [] [''a.json'', ''b.json''] = Inr inputs)
   \<and> selectRenderer (unicodeToLower demoEnv) ''html'' = HTML
   \<and> stdout (RunE demoEnv (demoCmd\<lparr>formatFlag := Some ''html''\<rparr>))
       = [''html a.json b.json; monthlyQuantity unit monthlyCost'' @ newline]
   \<and> outcome (RunE demoEnv (demoCmd\<lparr>formatFlag := Some ''html''\<rparr>)) = Return None"
proof -
  let ?cmd = "demoCmd\<lparr>formatFlag := Some ''html''\<rparr>"
  let ?inputs = "[\<lparr>Metadata = [(''filename'', ''a.json'')], Root = \<lparr>Version = ''0.1'', Payload = ()\<rparr>\<rparr>,
                  \<lparr>Metadata = [(''filename'', ''b.json'')], Root = \<lparr>Version = ''0.1'', Payload = ()\<rparr>\<rparr>]"
  have h1: "resolveInputFiles demoEnv ?cmd = Inr [''a.json'', ''b.json'']" by code_simp
  have h2: "loadInputs demoEnv [] [''a.json'', ''b.json''] = Inr ?inputs" by code_simp
  have f: "flagValue (formatFlag ?cmd) ''table'' = ''html''" by code_simp
  have rr: "render demoEnv HTML (Combine demoEnv ?inputs (outputOptions demoEnv ?cmd))
      (outputOptions demoEnv ?cmd)
      = Inr ''html a.json b.json; monthlyQuantity unit monthlyCost''"
    by code_simp
  from renderer_selection[where uni = "unicodeToLower demoEnv" and format = "''html''"
      and env = demoEnv and cmd = ?cmd and files = "[''a.json'', ''b.json'']" and inputs = ?inputs]
  have s: "selectRenderer (unicodeToLower demoEnv) ''html'' = HTML"
    and o: "(case render demoEnv (selectRenderer (unicodeToLower demoEnv)
                (flagValue (formatFlag ?cmd) ''table''))
               (Combine demoEnv ?inputs (outputOptions demoEnv ?cmd)) (outputOptions demoEnv ?cmd) of
          Inl err \<Rightarrow> stdout (RunE demoEnv ?cmd) = [] \<and> outcome (RunE demoEnv ?cmd) = Return (Some err)
        | Inr b \<Rightarrow> stdout (RunE demoEnv ?cmd) = [b @ newline] \<and> outcome (RunE demoEnv ?cmd) = Return None)"
    using h1 h2 by blast+
  from o have "stdout (RunE demoEnv ?cmd)
       = [''html a.json b.json; monthlyQuantity unit monthlyCost'' @ newline]
     \<and> outcome (RunE demoEnv ?cmd) = Return None"
    by (simp only: f s rr sum.case)
  with h1 h2 s show ?thesis by blast
qed



text \<open>
  C9. The selected renderer is a function of the format identifier in lower case: two
  identifiers with the same lower-case form select the same renderer, and \<open>JSON\<close> and
  \<open>json\<close> both select the JSON renderer (for a string of ASCII bytes the lower-case
  form maps \<open>A\<close>..\<open>Z\<close> to \<open>a\<close>..\<open>z\<close>). The table-only warning compares the format
  string as given: with the fields flag set, in a run that reaches the rendering, it is
  emitted exactly when the format string differs from \<open>table\<close>.
\<close>

theorem renderer_case_insensitive:
  "(ToLower uni f = ToLower uni g \<longrightarrow> selectRenderer uni f = selectRenderer uni g)
   \<and> selectRenderer uni ''JSON'' = JSON \<and> selectRenderer uni ''json'' = JSON
   \<and> (list_all (\<lambda>c. byte c < 128) f \<longrightarrow> ToLower uni f = map lowerASCII f)
   \<and> (resolveInputFiles env cmd = Inr files \<and> loadInputs env [] files = Inr inputs
        \<and> fieldsFlag cmd = Some req \<longrightarrow>
       (FieldsTableOnly \<in> set (warnings (RunE env cmd))
          \<longleftrightarrow> flagValue (formatFlag cmd) ''table'' \<noteq> ''table''))"
proof -
  have a: "ToLower uni f = ToLower uni g \<longrightarrow> selectRenderer uni f = selectRenderer uni g"
    by (simp add: selectRenderer_def)
  have b: "selectRenderer uni ''JSON'' = JSON" "selectRenderer uni ''json'' = JSON"
    by (simp_all add: selectRenderer_def ToLower_names)
  have c: "list_all (\<lambda>c. byte c < 128) f \<longrightarrow> ToLower uni f = map lowerASCII f"
    by (simp add: ToLower_ascii)
  have d: "resolveInputFiles env cmd = Inr files \<and> loadInputs env [] files = Inr inputs
        \<and> fieldsFlag cmd = Some req \<longrightarrow>
       (FieldsTableOnly \<in> set (warnings (RunE env cmd))
          \<longleftrightarrow> flagValue (formatFlag cmd) ''table'' \<noteq> ''table'')"
  proof
    assume h: "resolveInputFiles env cmd = Inr files \<and> loadInputs env [] files = Inr inputs
        \<and> fieldsFlag cmd = Some req"
    then have r: "RunE env cmd = renderInputs env cmd inputs" by (simp add: RunE_loaded)
    have "FieldsTableOnly \<notin> set (invalidFieldWarnings req)"
      by (auto simp: invalidFieldWarnings_eq)
    with h show "FieldsTableOnly \<in> set (warnings (RunE env cmd))
          \<longleftrightarrow> flagValue (formatFlag cmd) ''table'' \<noteq> ''table''"
      by (simp add: r warnings_renderInputs selectFields_Some Changed_def)
  qed
  show ?thesis by (intro conjI) (rule a b c d)+
qed

theorem renderer_case_insensitive_witness:
  "ToLower (unicodeToLower demoEnv) ''JSON'' = ToLower (unicodeToLower demoEnv) ''json''
   \<and> selectRenderer (unicodeToLower demoEnv) ''JSON'' = selectRenderer (unicodeToLower demoEnv) ''json''
   \<and> resolveInputFiles demoEnv (demoCmd\<lparr>formatFlag := Some ''TABLE'', fieldsFlag := Some [''unit'']\<rparr>)
     = Inr [''a.json'', ''b.json'']
   \<and> (\<exists>inputs. loadInputs demoEnv [] [''a.json'', ''b.json''] = Inr inputs)
   \<and> selectRenderer (unicodeToLower demoEnv) ''TABLE'' = Table
   \<and> FieldsTableOnly \<in> set (warnings
       (RunE demoEnv (demoCmd\<lparr>formatFlag := Some ''TABLE'', fieldsFlag := Some [''unit'']\<rparr>)))
   \<and> stdout (RunE demoEnv (demoCmd\<lparr>formatFlag := Some ''TABLE'', fieldsFlag := Some [''unit'']\<rparr>))
       = [''table a.json b.json; unit'' @ newline]"
proof -
  let ?cmd = "demoCmd\<lparr>formatFlag := Some ''TABLE'', fieldsFlag := Some [''unit'']\<rparr>"
  let ?inputs = "[\<lparr>Metadata = [(''filename'', ''a.json'')], Root = \<lparr>Version = ''0.1'', Payload = ()\<rparr>\<rparr>,
                  \<lparr>Metadata = [(''filename'', ''b.json'')], Root = \<lparr>Version = ''0.1'', Payload = ()\<rparr>\<rparr>]"
  have l: "ToLower (unicodeToLower demoEnv) ''JSON'' = ToLower (unicodeToLower demoEnv) ''json''"
    by code_simp
  have h1: "resolveInputFiles demoEnv ?cmd = Inr [''a.json'', ''b.json'']" by code_simp
  have h2: "loadInputs demoEnv [] [''a.json'', ''b.json''] = Inr ?inputs" by code_simp
  have h3: "fieldsFlag ?cmd = Some [''unit'']" by simp
  have f: "flagValue (formatFlag ?cmd) ''table'' \<noteq> ''table''" by code_simp
  have t: "selectRenderer (unicodeToLower demoEnv) ''TABLE'' = Table" by code_simp
  have so: "stdout (RunE demoEnv ?cmd) = [''table a.json b.json; unit'' @ newline]" by code_simp
  note th = renderer_case_insensitive[where uni = "unicodeToLower demoEnv" and f = "''JSON''"
      and g = "''json''" and env = demoEnv and cmd = ?cmd and files = "[''a.json'', ''b.json'']"
      and inputs = ?inputs and req = "[''unit'']"]
  from th l have s: "selectRenderer (unicodeToLower demoEnv) ''JSON''
      = selectRenderer (unicodeToLower demoEnv) ''json''"
    by blast
  from th h1 h2 h3 f have w: "FieldsTableOnly \<in> set (warnings (RunE demoEnv ?cmd))"
    by blast
  from l s h1 h2 t w so show ?thesis by blast
qed

end
